theory Spec2Isabelle
  imports Complex_Main "HOL-Library.Word" "HOL-Library.Product_Lexorder"
begin

section \<open>Errors\<close>

text \<open>
  \<^verbatim>\<open>schemas/api_schemas.py\<close>, class \<^verbatim>\<open>ErrorCode\<close>: eight string constants, pairwise
  different. They are the machine-readable error kinds; a datatype keeps them distinct.
\<close>

datatype ErrorCode =
    INVALID_IMAGE
  | NO_FACE_DETECTED
  | MULTIPLE_FACES_DETECTED
  | IMAGE_TOO_LARGE
  | UNSUPPORTED_FORMAT
  | MODEL_NOT_LOADED
  | INVALID_EMBEDDING
  | PROCESSING_ERROR

text \<open>
  Python exceptions as values. Each carries its message. \<^verbatim>\<open>ImageProcessingError\<close>
  (\<^verbatim>\<open>utils/image_utils.py\<close>) and \<^verbatim>\<open>FaceModelError\<close> (\<^verbatim>\<open>models/face_model.py\<close>) are the
  two classes of the repository, each with a message and an error code. The others are
  classes of Python and of the libraries the code calls, as far as the \<^verbatim>\<open>except\<close>
  clauses of the source tell them apart: \<^verbatim>\<open>BinasciiError\<close> is \<^verbatim>\<open>base64.binascii.Error\<close>,
  \<^verbatim>\<open>Timeout\<close> is \<^verbatim>\<open>requests.exceptions.Timeout\<close>, \<^verbatim>\<open>RequestException\<close> is every other
  \<^verbatim>\<open>requests.exceptions.RequestException\<close> (\<^verbatim>\<open>HTTPError\<close>, \<^verbatim>\<open>ConnectionError\<close>, ...), and
  \<^verbatim>\<open>OtherException\<close> is any other subclass of \<^verbatim>\<open>Exception\<close>.
\<close>

datatype exn =
    ValueError string
  | IndexError string
  | ZeroDivisionError string
  | ValidationError string
  | BinasciiError string
  | Timeout string
  | RequestException string
  | OtherException string
  | ImageProcessingError string ErrorCode
  | FaceModelError string ErrorCode

text \<open>\<^verbatim>\<open>str(e)\<close>: the message of an exception.\<close>

fun str_exn :: "exn \<Rightarrow> string" where
  "str_exn (ValueError m) = m"
| "str_exn (IndexError m) = m"
| "str_exn (ZeroDivisionError m) = m"
| "str_exn (ValidationError m) = m"
| "str_exn (BinasciiError m) = m"
| "str_exn (Timeout m) = m"
| "str_exn (RequestException m) = m"
| "str_exn (OtherException m) = m"
| "str_exn (ImageProcessingError m c) = m"
| "str_exn (FaceModelError m c) = m"

text \<open>The \<^verbatim>\<open>error_code\<close> attribute, which only the repository's two classes have.\<close>

fun error_code :: "exn \<Rightarrow> ErrorCode option" where
  "error_code (ImageProcessingError m c) = Some c"
| "error_code (FaceModelError m c) = Some c"
| "error_code e = None"

text \<open>The error code of a failed call, \<open>None\<close> when the call returned.\<close>

definition failure_kind :: "exn + 'a \<Rightarrow> ErrorCode option" where
  "failure_kind r = (case r of Inl e \<Rightarrow> error_code e | Inr v \<Rightarrow> None)"

subsection \<open>Formatting integers in messages\<close>

text \<open>\<^verbatim>\<open>str(n)\<close> for a natural number and for an integer, as f-strings render them.\<close>

definition digit_char :: "nat \<Rightarrow> char" where
  "digit_char d = ''0123456789'' ! d"

function str_nat :: "nat \<Rightarrow> string" where
  "str_nat n = (if n < 10 then [digit_char n] else str_nat (n div 10) @ [digit_char (n mod 10)])"
  by pat_completeness auto
termination
  by (relation "measure (\<lambda>n. n)") auto

declare str_nat.simps [simp del]

definition str_int :: "int \<Rightarrow> string" where
  "str_int i = (if i < 0 then CHR ''-'' # str_nat (nat (- i)) else str_nat (nat i))"

section \<open>Distance engine (\<^verbatim>\<open>utils/embedding_utils.py\<close>)\<close>

text \<open>
  The functions of the module are modelled twice. In this section a floating-point number
  is a real number and every operation is the exact one: rounding, overflow to infinity
  and NaN are outside this model. It is the model of the statements that compare two
  computations of the code with each other (the symmetry of a distance, the batched
  distances against the distances taken one by one) and of \<^verbatim>\<open>distance_to_similarity\<close>.
  The section on floats with a range models the same functions with infinities, NaN,
  overflow and underflow; what the cosine distance returns and how the references are
  ranked is stated there. One-dimensional arrays are lists; a two-dimensional array is
  the list of its rows.
\<close>

type_synonym vec = "real list"

text \<open>
  \<^verbatim>\<open>np.linalg.norm\<close> of a one-dimensional array: the square root of the sum of squares,
  here the exact one. The norm whose sum of squares can overflow or underflow is
  \<open>linalg_norm_fl\<close> below.
\<close>

definition linalg_norm :: "vec \<Rightarrow> real" where
  "linalg_norm v = sqrt (sum_list (map (\<lambda>x. x * x) v))"

text \<open>
  \<^verbatim>\<open>np.linalg.norm\<close> of a two-dimensional array, without \<^verbatim>\<open>axis\<close>: the Frobenius norm,
  over all the entries of all the rows.
\<close>

definition linalg_norm_2d :: "vec list \<Rightarrow> real" where
  "linalg_norm_2d m = sqrt (sum_list (map (\<lambda>x. x * x) (concat m)))"

text \<open>\<^verbatim>\<open>"(n,)"\<close>: how numpy prints the shape of a one-dimensional array.\<close>

definition str_shape1 :: "nat \<Rightarrow> string" where
  "str_shape1 n = ''('' @ str_nat n @ '',)''"

text \<open>\<^verbatim>\<open>np.dot\<close> of two one-dimensional arrays; it raises when the lengths differ.\<close>

definition np_dot :: "vec \<Rightarrow> vec \<Rightarrow> exn + real" where
  "np_dot a b =
     (if length a = length b then Inr (sum_list (map2 (*) a b))
      else Inl (ValueError (''shapes '' @ str_shape1 (length a) @ '' and ''
                  @ str_shape1 (length b) @ '' not aligned: '' @ str_nat (length a)
                  @ '' (dim 0) != '' @ str_nat (length b) @ '' (dim 0)'')))"

text \<open>
  \<^verbatim>\<open>a - b\<close> on one-dimensional arrays, with numpy's broadcasting: equal lengths subtract
  entry by entry, an array of length one is subtracted from (or has subtracted from it)
  every entry of the other, and any other pair of lengths raises.
\<close>

definition np_sub :: "vec \<Rightarrow> vec \<Rightarrow> exn + vec" where
  "np_sub a b =
     (if length a = length b then Inr (map2 (-) a b)
      else if length b = 1 then Inr (map (\<lambda>x. x - hd b) a)
      else if length a = 1 then Inr (map (\<lambda>y. hd a - y) b)
      else Inl (ValueError (''operands could not be broadcast together with shapes ''
                  @ str_shape1 (length a) @ '' '' @ str_shape1 (length b) @ '' '')))"

text \<open>\<^verbatim>\<open>np.clip(x, lo, hi)\<close>.\<close>

definition np_clip :: "real \<Rightarrow> real \<Rightarrow> real \<Rightarrow> real" where
  "np_clip x lo hi = min (max x lo) hi"

text \<open>\<^verbatim>\<open>normalize_embedding\<close>, on a one-dimensional array.\<close>

definition normalize_embedding :: "vec \<Rightarrow> vec" where
  "normalize_embedding embedding =
     (let norm = linalg_norm embedding
      in if norm = 0 then embedding else map (\<lambda>x. x / norm) embedding)"

text \<open>
  \<^verbatim>\<open>normalize_embedding\<close> when the caller passes a two-dimensional array, as
  \<^verbatim>\<open>batch_calculate_distances\<close> does: the same body, where \<^verbatim>\<open>np.linalg.norm\<close> is then the
  norm of the whole array and the division divides every entry by it.
\<close>

definition normalize_embedding_2d :: "vec list \<Rightarrow> vec list" where
  "normalize_embedding_2d embedding =
     (let norm = linalg_norm_2d embedding
      in if norm = 0 then embedding else map (map (\<lambda>x. x / norm)) embedding)"

definition cosine_distance :: "vec \<Rightarrow> vec \<Rightarrow> exn + real" where
  "cosine_distance embedding1 embedding2 =
     (let emb1_norm = normalize_embedding embedding1;
          emb2_norm = normalize_embedding embedding2
      in case np_dot emb1_norm emb2_norm of
           Inl e \<Rightarrow> Inl e
         | Inr cosine_sim \<Rightarrow> Inr (1 - np_clip cosine_sim (- 1) 1))"

definition euclidean_distance :: "vec \<Rightarrow> vec \<Rightarrow> exn + real" where
  "euclidean_distance embedding1 embedding2 =
     (case np_sub embedding1 embedding2 of
        Inl e \<Rightarrow> Inl e
      | Inr diff \<Rightarrow> Inr (linalg_norm diff))"

definition calculate_distance :: "vec \<Rightarrow> vec \<Rightarrow> string \<Rightarrow> exn + real" where
  "calculate_distance embedding1 embedding2 metric =
     (if metric = ''cosine'' then cosine_distance embedding1 embedding2
      else if metric = ''euclidean'' then euclidean_distance embedding1 embedding2
      else Inl (ValueError (''Unsupported distance metric: '' @ metric)))"

text \<open>
  \<^verbatim>\<open>distance_to_similarity\<close>. \<^verbatim>\<open>distance\<close> is a Python float, and Python raises
  \<^verbatim>\<open>ZeroDivisionError\<close> on a float division by zero, which happens at distance \<open>-1\<close>.
\<close>

definition distance_to_similarity :: "real \<Rightarrow> string \<Rightarrow> exn + real" where
  "distance_to_similarity distance metric =
     (if metric = ''cosine'' then
        (let similarity = 1 - distance / 2 in Inr (max 0 (min 1 similarity)))
      else if metric = ''euclidean'' then
        (if 1 + distance = 0 then Inl (ZeroDivisionError ''float division by zero'')
         else (let similarity = 1 / (1 + distance) in Inr (max 0 (min 1 similarity))))
      else Inl (ValueError (''Unsupported distance metric: '' @ metric)))"

subsection \<open>Validation of an embedding\<close>

text \<open>
  Where a claim is about NaN and infinity, a float is a value of this type rather than a
  real number.
\<close>

datatype pyfloat = Finite real | PosInf | NegInf | NaN

text \<open>
  \<^verbatim>\<open>np.array(embedding, dtype=np.float32)\<close> on one entry: a finite value at or beyond
  \<open>2^128 - 2^103\<close>, half way between the largest float32 and \<open>2^128\<close>, becomes infinite.
  The rounding of the other finite values is left out, since only \<^verbatim>\<open>isnan\<close> and \<^verbatim>\<open>isinf\<close>
  read the result.
\<close>

fun float32 :: "pyfloat \<Rightarrow> pyfloat" where
  "float32 (Finite x) =
     (if 2 ^ 128 - 2 ^ 103 \<le> x then PosInf
      else if x \<le> - (2 ^ 128 - 2 ^ 103) then NegInf
      else Finite x)"
| "float32 v = v"

fun isnan :: "pyfloat \<Rightarrow> bool" where
  "isnan NaN = True"
| "isnan v = False"

fun isinf :: "pyfloat \<Rightarrow> bool" where
  "isinf PosInf = True"
| "isinf NegInf = True"
| "isinf v = False"

text \<open>
  \<^verbatim>\<open>is_valid_embedding\<close>, on a list of floats (the \<^verbatim>\<open>isinstance\<close> test and the
  \<^verbatim>\<open>except (ValueError, TypeError)\<close> branch are for arguments of other types).
\<close>

definition is_valid_embedding :: "pyfloat list \<Rightarrow> int \<Rightarrow> bool" where
  "is_valid_embedding embedding expected_size =
     (if int (length embedding) \<noteq> expected_size then False
      else (let arr = map float32 embedding
            in if list_ex isnan arr \<or> list_ex isinf arr then False else True))"

section \<open>Distance engine on floats with a range\<close>

text \<open>
  The arrays of \<^verbatim>\<open>utils/embedding_utils.py\<close> hold floats of one format (\<^verbatim>\<open>float32\<close> in
  \<^verbatim>\<open>find_best_match\<close>). This section models the same functions on such floats: a value is
  a finite number, an infinity or NaN, and every operation follows IEEE 754 in what kind
  of value it returns. A result whose magnitude reaches the overflow threshold of the
  format (half a unit in the last place above the largest finite number) is infinite; a
  result whose magnitude is at most the underflow threshold (half the smallest
  subnormal number) is zero; any other result is taken to be the exact one, so rounding
  is left out. The sign of zero is left out too.
\<close>

record float_format =
  overflow_threshold :: real
  underflow_threshold :: real
  min_normal :: real

definition float32_format :: float_format where
  "float32_format =
     \<lparr>overflow_threshold = 2 ^ 128 - 2 ^ 103, underflow_threshold = 1 / 2 ^ 150,
      min_normal = 1 / 2 ^ 126\<rparr>"

definition float64_format :: float_format where
  "float64_format =
     \<lparr>overflow_threshold = 2 ^ 1024 - 2 ^ 970, underflow_threshold = 1 / 2 ^ 1075,
      min_normal = 1 / 2 ^ 1022\<rparr>"

text \<open>What the theorems ask of a format; both formats above have it.\<close>

definition valid_format :: "float_format \<Rightarrow> bool" where
  "valid_format fmt =
     (0 < underflow_threshold fmt \<and> underflow_threshold fmt < min_normal fmt
      \<and> min_normal fmt \<le> 1 \<and> 4 \<le> overflow_threshold fmt)"

definition round_to :: "float_format \<Rightarrow> real \<Rightarrow> pyfloat" where
  "round_to fmt x =
     (if overflow_threshold fmt \<le> \<bar>x\<bar> then (if 0 < x then PosInf else NegInf)
      else if \<bar>x\<bar> \<le> underflow_threshold fmt then Finite 0
      else Finite x)"



fun fneg :: "pyfloat \<Rightarrow> pyfloat" where
  "fneg (Finite x) = Finite (- x)"
| "fneg PosInf = NegInf"
| "fneg NegInf = PosInf"
| "fneg NaN = NaN"

fun fadd :: "float_format \<Rightarrow> pyfloat \<Rightarrow> pyfloat \<Rightarrow> pyfloat" where
  "fadd fmt (Finite x) (Finite y) = round_to fmt (x + y)"
| "fadd fmt (Finite x) PosInf = PosInf"
| "fadd fmt (Finite x) NegInf = NegInf"
| "fadd fmt PosInf (Finite y) = PosInf"
| "fadd fmt PosInf PosInf = PosInf"
| "fadd fmt PosInf NegInf = NaN"
| "fadd fmt NegInf (Finite y) = NegInf"
| "fadd fmt NegInf NegInf = NegInf"
| "fadd fmt NegInf PosInf = NaN"
| "fadd fmt NaN b = NaN"
| "fadd fmt a NaN = NaN"

definition fsub :: "float_format \<Rightarrow> pyfloat \<Rightarrow> pyfloat \<Rightarrow> pyfloat" where
  "fsub fmt a b = fadd fmt a (fneg b)"

fun fmul :: "float_format \<Rightarrow> pyfloat \<Rightarrow> pyfloat \<Rightarrow> pyfloat" where
  "fmul fmt (Finite x) (Finite y) = round_to fmt (x * y)"
| "fmul fmt (Finite x) PosInf = (if x = 0 then NaN else if 0 < x then PosInf else NegInf)"
| "fmul fmt (Finite x) NegInf = (if x = 0 then NaN else if 0 < x then NegInf else PosInf)"
| "fmul fmt PosInf (Finite y) = (if y = 0 then NaN else if 0 < y then PosInf else NegInf)"
| "fmul fmt NegInf (Finite y) = (if y = 0 then NaN else if 0 < y then NegInf else PosInf)"
| "fmul fmt PosInf PosInf = PosInf"
| "fmul fmt PosInf NegInf = NegInf"
| "fmul fmt NegInf PosInf = NegInf"
| "fmul fmt NegInf NegInf = PosInf"
| "fmul fmt NaN b = NaN"
| "fmul fmt a NaN = NaN"

fun fdiv :: "float_format \<Rightarrow> pyfloat \<Rightarrow> pyfloat \<Rightarrow> pyfloat" where
  "fdiv fmt (Finite x) (Finite y) =
     (if y = 0 then (if x = 0 then NaN else if 0 < x then PosInf else NegInf)
      else round_to fmt (x / y))"
| "fdiv fmt (Finite x) PosInf = Finite 0"
| "fdiv fmt (Finite x) NegInf = Finite 0"
| "fdiv fmt PosInf (Finite y) = (if 0 \<le> y then PosInf else NegInf)"
| "fdiv fmt NegInf (Finite y) = (if 0 \<le> y then NegInf else PosInf)"
| "fdiv fmt PosInf PosInf = NaN"
| "fdiv fmt PosInf NegInf = NaN"
| "fdiv fmt NegInf PosInf = NaN"
| "fdiv fmt NegInf NegInf = NaN"
| "fdiv fmt NaN b = NaN"
| "fdiv fmt a NaN = NaN"

text \<open>The square root of a finite float is never out of range.\<close>

fun fsqrt :: "pyfloat \<Rightarrow> pyfloat" where
  "fsqrt (Finite x) = (if x < 0 then NaN else Finite (sqrt x))"
| "fsqrt PosInf = PosInf"
| "fsqrt NegInf = NaN"
| "fsqrt NaN = NaN"

text \<open>\<^verbatim>\<open><\<close> and \<^verbatim>\<open><=\<close> on floats: false whenever an operand is NaN.\<close>

fun flt :: "pyfloat \<Rightarrow> pyfloat \<Rightarrow> bool" where
  "flt (Finite x) (Finite y) = (x < y)"
| "flt (Finite x) PosInf = True"
| "flt NegInf (Finite y) = True"
| "flt NegInf PosInf = True"
| "flt a b = False"


text \<open>
  \<^verbatim>\<open>np.clip(x, lo, hi)\<close> for finite bounds \<open>lo \<le> hi\<close>: the minimum with \<open>hi\<close> of the maximum
  with \<open>lo\<close>, and NaN for NaN.
\<close>

fun fclip :: "pyfloat \<Rightarrow> real \<Rightarrow> real \<Rightarrow> pyfloat" where
  "fclip (Finite x) lo hi = Finite (min (max x lo) hi)"
| "fclip PosInf lo hi = Finite hi"
| "fclip NegInf lo hi = Finite lo"
| "fclip NaN lo hi = NaN"

text \<open>
  The sum of the products of two arrays, accumulated from the left and starting at zero:
  what \<^verbatim>\<open>np.dot\<close> computes for one-dimensional arrays of equal length.
\<close>

definition dot_fl :: "float_format \<Rightarrow> pyfloat list \<Rightarrow> pyfloat list \<Rightarrow> pyfloat" where
  "dot_fl fmt a b = foldl (fadd fmt) (Finite 0) (map2 (fmul fmt) a b)"

text \<open>
  \<^verbatim>\<open>np.linalg.norm\<close> of a one-dimensional array is \<^verbatim>\<open>sqrt(x.dot(x))\<close>: the sum of squares
  can overflow to infinity or underflow to zero on a vector of finite, non-zero floats.
\<close>

definition linalg_norm_fl :: "float_format \<Rightarrow> pyfloat list \<Rightarrow> pyfloat" where
  "linalg_norm_fl fmt v = fsqrt (dot_fl fmt v v)"

definition normalize_embedding_fl :: "float_format \<Rightarrow> pyfloat list \<Rightarrow> pyfloat list" where
  "normalize_embedding_fl fmt embedding =
     (let norm = linalg_norm_fl fmt embedding
      in if norm = Finite 0 then embedding else map (\<lambda>x. fdiv fmt x norm) embedding)"

definition np_dot_fl :: "float_format \<Rightarrow> pyfloat list \<Rightarrow> pyfloat list \<Rightarrow> exn + pyfloat" where
  "np_dot_fl fmt a b =
     (if length a = length b then Inr (dot_fl fmt a b)
      else Inl (ValueError (''shapes '' @ str_shape1 (length a) @ '' and ''
                  @ str_shape1 (length b) @ '' not aligned: '' @ str_nat (length a)
                  @ '' (dim 0) != '' @ str_nat (length b) @ '' (dim 0)'')))"

definition np_sub_fl ::
  "float_format \<Rightarrow> pyfloat list \<Rightarrow> pyfloat list \<Rightarrow> exn + pyfloat list" where
  "np_sub_fl fmt a b =
     (if length a = length b then Inr (map2 (fsub fmt) a b)
      else if length b = 1 then Inr (map (\<lambda>x. fsub fmt x (hd b)) a)
      else if length a = 1 then Inr (map (\<lambda>y. fsub fmt (hd a) y) b)
      else Inl (ValueError (''operands could not be broadcast together with shapes ''
                  @ str_shape1 (length a) @ '' '' @ str_shape1 (length b) @ '' '')))"

definition cosine_distance_fl ::
  "float_format \<Rightarrow> pyfloat list \<Rightarrow> pyfloat list \<Rightarrow> exn + pyfloat" where
  "cosine_distance_fl fmt embedding1 embedding2 =
     (let emb1_norm = normalize_embedding_fl fmt embedding1;
          emb2_norm = normalize_embedding_fl fmt embedding2
      in case np_dot_fl fmt emb1_norm emb2_norm of
           Inl e \<Rightarrow> Inl e
         | Inr cosine_sim \<Rightarrow> Inr (fsub fmt (Finite 1) (fclip cosine_sim (- 1) 1)))"

definition euclidean_distance_fl ::
  "float_format \<Rightarrow> pyfloat list \<Rightarrow> pyfloat list \<Rightarrow> exn + pyfloat" where
  "euclidean_distance_fl fmt embedding1 embedding2 =
     (case np_sub_fl fmt embedding1 embedding2 of
        Inl e \<Rightarrow> Inl e
      | Inr diff \<Rightarrow> Inr (linalg_norm_fl fmt diff))"



subsection \<open>Ranking\<close>


record MatchResult =
  match_id :: string
  distance :: pyfloat
  similarity :: pyfloat


text \<open>
  \<^verbatim>\<open>np.array(values, dtype=np.float32)\<close> on a list of Python floats: every entry is
  rounded to \<^verbatim>\<open>float32\<close>, so a finite entry beyond the range of \<^verbatim>\<open>float32\<close> becomes
  infinite.
\<close>

definition np_array_float32 :: "pyfloat list \<Rightarrow> pyfloat list" where
  "np_array_float32 values =
     map (\<lambda>v. case v of Finite x \<Rightarrow> round_to float32_format x
                | PosInf \<Rightarrow> PosInf | NegInf \<Rightarrow> NegInf | NaN \<Rightarrow> NaN) values"








subsection \<open>Batched distances\<close>

text \<open>\<^verbatim>\<open>"(n, d)"\<close>: the shape of a two-dimensional array, as numpy's messages print it.\<close>

definition str_shape2 :: "vec list \<Rightarrow> string" where
  "str_shape2 m = ''('' @ str_nat (length m) @ '','' @ str_nat (length (hd m)) @ '')''"

text \<open>
  \<^verbatim>\<open>np.dot\<close> of a two-dimensional array (a non-empty list of rows of one length) and a
  one-dimensional array: the dot product of every row with the vector.
\<close>

definition np_dot_2d :: "vec list \<Rightarrow> vec \<Rightarrow> exn + vec" where
  "np_dot_2d m v =
     (if list_all (\<lambda>row. length row = length v) m
      then Inr (map (\<lambda>row. sum_list (map2 (*) row v)) m)
      else Inl (ValueError (''shapes '' @ str_shape2 m @ '' and '' @ str_shape1 (length v)
                  @ '' not aligned: '' @ str_nat (length (hd m)) @ '' (dim 1) != ''
                  @ str_nat (length v) @ '' (dim 0)'')))"

text \<open>
  \<^verbatim>\<open>m - v\<close> for a two-dimensional \<^verbatim>\<open>m\<close> and a one-dimensional \<^verbatim>\<open>v\<close>: \<^verbatim>\<open>v\<close> is subtracted
  from every row, with the broadcasting of \<open>np_sub\<close> inside the row.
\<close>

definition np_sub_2d :: "vec list \<Rightarrow> vec \<Rightarrow> exn + vec list" where
  "np_sub_2d m v =
     (if list_all (\<lambda>row. length row = length v \<or> length v = 1 \<or> length row = 1) m
      then Inr (map (\<lambda>row. if length row = length v then map2 (-) row v
                           else if length v = 1 then map (\<lambda>x. x - hd v) row
                           else map (\<lambda>y. hd row - y) v) m)
      else Inl (ValueError (''operands could not be broadcast together with shapes ''
                  @ str_shape2 m @ '' '' @ str_shape1 (length v) @ '' '')))"

text \<open>
  \<^verbatim>\<open>batch_calculate_distances\<close>. \<^verbatim>\<open>np.linalg.norm(diffs, axis=1)\<close> is the norm of every
  row.
\<close>

definition batch_calculate_distances :: "vec \<Rightarrow> vec list \<Rightarrow> string \<Rightarrow> exn + vec" where
  "batch_calculate_distances query_embedding reference_embeddings metric =
     (if metric = ''cosine'' then
        (let query_norm = normalize_embedding query_embedding;
             refs_norm = normalize_embedding_2d reference_embeddings
         in case np_dot_2d refs_norm query_norm of
              Inl e \<Rightarrow> Inl e
            | Inr cosine_sims \<Rightarrow> Inr (map (\<lambda>s. 1 - s) cosine_sims))
      else if metric = ''euclidean'' then
        (case np_sub_2d reference_embeddings query_embedding of
           Inl e \<Rightarrow> Inl e
         | Inr diffs' \<Rightarrow> Inr (map linalg_norm diffs'))
      else Inl (ValueError (''Unsupported distance metric: '' @ metric)))"

section \<open>Images (\<^verbatim>\<open>utils/image_utils.py\<close>)\<close>

text \<open>
  A numpy array of bytes: its shape and its entries in row-major order. The images of
  this pipeline are \<^verbatim>\<open>uint8\<close> arrays.
\<close>

type_synonym uint8 = "8 word"

record ndarray =
  shape :: "nat list"
  data :: "uint8 list"

text \<open>\<^verbatim>\<open>str(image.shape)\<close>: a Python tuple of integers.\<close>

fun str_items :: "nat list \<Rightarrow> string" where
  "str_items [] = []"
| "str_items [n] = str_nat n"
| "str_items (n # ns) = str_nat n @ '', '' @ str_items ns"

definition str_tuple :: "nat list \<Rightarrow> string" where
  "str_tuple ns =
     (if length ns = 1 then ''('' @ str_nat (hd ns) @ '',)'' else ''('' @ str_items ns @ '')'')"

text \<open>
  \<^verbatim>\<open>validate_image\<close>. The argument is \<open>None\<close> or an array (the \<^verbatim>\<open>isinstance\<close> test is for
  other types); \<^verbatim>\<open>image.size\<close> is the product of the shape.
\<close>

definition validate_image :: "ndarray option \<Rightarrow> bool \<times> string option" where
  "validate_image image_opt =
     (case image_opt of
        None \<Rightarrow> (False, Some ''Image is None'')
      | Some img \<Rightarrow>
          if prod_list (shape img) = 0 then (False, Some ''Image is empty'')
          else if length (shape img) \<notin> {2, 3} then
            (False, Some (''Invalid image shape: '' @ str_tuple (shape img)
                            @ ''. Expected 2D or 3D array''))
          else if length (shape img) = 3 \<and> shape img ! 2 \<notin> {1, 3, 4} then
            (False, Some (''Invalid number of channels: '' @ str_nat (shape img ! 2)
                            @ ''. Expected 1, 3, or 4''))
          else
            (let height = shape img ! 0; width = shape img ! 1; min_size = 32; max_size = 8192
             in if height < min_size \<or> width < min_size then
                  (False, Some (''Image too small: '' @ str_nat width @ ''x'' @ str_nat height
                                  @ ''. Minimum size: '' @ str_nat min_size @ ''x'' @ str_nat min_size))
                else if height > max_size \<or> width > max_size then
                  (False, Some (''Image too large: '' @ str_nat width @ ''x'' @ str_nat height
                                  @ ''. Maximum size: '' @ str_nat max_size @ ''x'' @ str_nat max_size))
                else (True, None)))"

text \<open>
  \<^verbatim>\<open>cv2.cvtColor\<close> of OpenCV, for the three conversions the code asks for, on \<^verbatim>\<open>uint8\<close>
  data: \<^verbatim>\<open>COLOR_GRAY2BGR\<close> writes every grey value three times, \<^verbatim>\<open>COLOR_BGRA2BGR\<close> drops
  the fourth channel of every pixel, \<^verbatim>\<open>COLOR_RGB2BGR\<close> swaps the first and third channel.
\<close>

definition cvtColor_GRAY2BGR :: "ndarray \<Rightarrow> ndarray" where
  "cvtColor_GRAY2BGR src =
     \<lparr>shape = shape src @ [3], data = concat (map (\<lambda>v. [v, v, v]) (data src))\<rparr>"

fun drop_alpha :: "uint8 list \<Rightarrow> uint8 list" where
  "drop_alpha (b # g # r # a # rest) = b # g # r # drop_alpha rest"
| "drop_alpha rest = []"

definition cvtColor_BGRA2BGR :: "ndarray \<Rightarrow> ndarray" where
  "cvtColor_BGRA2BGR src =
     \<lparr>shape = [shape src ! 0, shape src ! 1, 3], data = drop_alpha (data src)\<rparr>"

fun swap_red_blue :: "uint8 list \<Rightarrow> uint8 list" where
  "swap_red_blue (r # g # b # rest) = b # g # r # swap_red_blue rest"
| "swap_red_blue rest = []"

definition cvtColor_RGB2BGR :: "ndarray \<Rightarrow> ndarray" where
  "cvtColor_RGB2BGR src = \<lparr>shape = shape src, data = swap_red_blue (data src)\<rparr>"

text \<open>
  \<^verbatim>\<open>preprocess_image\<close>. Nothing in the \<^verbatim>\<open>try\<close> body raises anything but the
  \<^verbatim>\<open>ImageProcessingError\<close> of a rejected image, which the handler raises again.
\<close>

definition preprocess_image :: "ndarray option \<Rightarrow> exn + ndarray" where
  "preprocess_image image_opt =
     (case validate_image image_opt of
        (is_valid, error_msg) \<Rightarrow>
          if \<not> is_valid then
            Inl (ImageProcessingError (case error_msg of Some m \<Rightarrow> m | None \<Rightarrow> ''None'') INVALID_IMAGE)
          else
            (case image_opt of
               None \<Rightarrow> Inl (ImageProcessingError ''Image is None'' INVALID_IMAGE)
             | Some img \<Rightarrow>
                 if length (shape img) = 2 then Inr (cvtColor_GRAY2BGR img)
                 else if shape img ! 2 = 4 then Inr (cvtColor_BGRA2BGR img)
                 else Inr img))"

subsection \<open>Ingestion\<close>

text \<open>
  The two settings of \<^verbatim>\<open>config.py\<close> that image ingestion reads, and their defaults.
\<close>

record Settings =
  max_image_size :: int
  allowed_image_formats :: "string set"

definition default_settings :: Settings where
  "default_settings =
     \<lparr>max_image_size = 10 * 1024 * 1024,
      allowed_image_formats = {''jpg'', ''jpeg'', ''png'', ''bmp'', ''webp''}\<rparr>"

text \<open>
  What the library calls of this module return is a parameter of the model.
  \<^verbatim>\<open>Image.open\<close> of PIL gives an image with a \<^verbatim>\<open>format\<close> and, once its pixel data is decoded
  (by \<^verbatim>\<open>convert("RGB")\<close> and \<^verbatim>\<open>np.array\<close>), an RGB array or the exception the decoding
  raises. \<^verbatim>\<open>requests.get\<close> gives a response or raises; reading \<^verbatim>\<open>response.content\<close> of a
  streamed response may raise too. \<open>str_allowed_formats\<close> is the text Python prints for
  the set \<^verbatim>\<open>settings.allowed_image_formats\<close>, whose order Python does not fix.
\<close>

record PILImage =
  format :: "string option"
  rgb_array :: "exn + ndarray"

record Response =
  status_code :: int
  reason :: string
  response_url :: string
  content :: "exn + uint8 list"

record World =
  b64decode :: "string \<Rightarrow> exn + uint8 list"
  Image_open :: "uint8 list \<Rightarrow> exn + PILImage"
  requests_get :: "string \<Rightarrow> int \<Rightarrow> exn + Response"
  str_allowed_formats :: string

text \<open>
  The library calls a function makes, in the order it makes them. \<open>Call_Image_open\<close> is
  where the decoding of the image begins.
\<close>

datatype call =
    Call_b64decode string
  | Call_requests_get string int
  | Call_Image_open "uint8 list"

text \<open>\<^verbatim>\<open>str.lower\<close> on ASCII, and \<^verbatim>\<open>str.startswith\<close>.\<close>

definition lower_char :: "char \<Rightarrow> char" where
  "lower_char c =
     (if 65 \<le> (of_char c :: nat) \<and> (of_char c :: nat) \<le> 90 then char_of ((of_char c :: nat) + 32)
      else c)"

definition lower :: "string \<Rightarrow> string" where
  "lower s = map lower_char s"

definition startswith :: "string \<Rightarrow> string \<Rightarrow> bool" where
  "startswith s prefix = (take (length prefix) s = prefix)"

text \<open>
  The \<^verbatim>\<open>except\<close> clauses of \<^verbatim>\<open>load_image_from_bytes\<close>: an \<^verbatim>\<open>ImageProcessingError\<close> is raised
  again, anything else becomes an invalid image.
\<close>

definition load_handler :: "exn \<Rightarrow> exn" where
  "load_handler e =
     (case e of
        ImageProcessingError m c \<Rightarrow> e
      | _ \<Rightarrow> ImageProcessingError (''Failed to load image from bytes: '' @ str_exn e) INVALID_IMAGE)"

definition load_image_from_bytes ::
  "World \<Rightarrow> Settings \<Rightarrow> uint8 list \<Rightarrow> call list \<times> (exn + ndarray)" where
  "load_image_from_bytes w settings image_bytes =
     ([Call_Image_open image_bytes],
      (case Image_open w image_bytes of
         Inl e \<Rightarrow> Inl (load_handler e)
       | Inr pil_image \<Rightarrow>
           (let pixels =
                  (case rgb_array pil_image of
                     Inl e \<Rightarrow> Inl (load_handler e)
                   | Inr image_array \<Rightarrow> Inr (cvtColor_RGB2BGR image_array))
            in case format pil_image of
                 None \<Rightarrow> pixels
               | Some f \<Rightarrow>
                   if f \<noteq> [] \<and> lower f \<notin> allowed_image_formats settings then
                     Inl (load_handler (ImageProcessingError
                            (''Unsupported image format: '' @ f @ ''. Allowed formats: ''
                               @ str_allowed_formats w) UNSUPPORTED_FORMAT))
                   else pixels)))"

text \<open>
  \<^verbatim>\<open>decode_base64_image\<close>. The data URI prefix goes up to the first comma.
\<close>

definition strip_data_uri :: "string \<Rightarrow> string" where
  "strip_data_uri base64_string =
     (if CHR '','' \<in> set base64_string \<and> startswith base64_string ''data:''
      then tl (dropWhile (\<lambda>c. c \<noteq> CHR '','') base64_string)
      else base64_string)"

definition too_large_message :: "nat \<Rightarrow> int \<Rightarrow> string" where
  "too_large_message n limit =
     ''Image size ('' @ str_nat n @ '' bytes) exceeds maximum allowed ('' @ str_int limit @ '' bytes)''"

definition decode_handler :: "exn \<Rightarrow> exn" where
  "decode_handler e =
     (case e of
        BinasciiError m \<Rightarrow> ImageProcessingError (''Invalid base64 encoding: '' @ m) INVALID_IMAGE
      | ImageProcessingError m c \<Rightarrow> e
      | _ \<Rightarrow> ImageProcessingError (''Failed to decode image: '' @ str_exn e) INVALID_IMAGE)"

definition decode_base64_image ::
  "World \<Rightarrow> Settings \<Rightarrow> string \<Rightarrow> call list \<times> (exn + ndarray)" where
  "decode_base64_image w settings base64_string =
     (let base64_string = strip_data_uri base64_string
      in case b64decode w base64_string of
           Inl e \<Rightarrow> ([Call_b64decode base64_string], Inl (decode_handler e))
         | Inr image_bytes \<Rightarrow>
             if int (length image_bytes) > max_image_size settings then
               ([Call_b64decode base64_string],
                Inl (decode_handler (ImageProcessingError
                       (too_large_message (length image_bytes) (max_image_size settings))
                       IMAGE_TOO_LARGE)))
             else
               (case load_image_from_bytes w settings image_bytes of
                  (calls, r) \<Rightarrow>
                    (Call_b64decode base64_string # calls,
                     (case r of Inl e \<Rightarrow> Inl (decode_handler e) | Inr image_bgr \<Rightarrow> Inr image_bgr))))"

text \<open>
  \<^verbatim>\<open>Response.raise_for_status\<close> of the requests library: it raises \<^verbatim>\<open>HTTPError\<close> for the
  status codes 400 to 599 and returns for every other one.
\<close>

definition raise_for_status :: "Response \<Rightarrow> exn + unit" where
  "raise_for_status response =
     (if 400 \<le> status_code response \<and> status_code response < 500 then
        Inl (RequestException (str_int (status_code response) @ '' Client Error: ''
               @ reason response @ '' for url: '' @ response_url response))
      else if 500 \<le> status_code response \<and> status_code response < 600 then
        Inl (RequestException (str_int (status_code response) @ '' Server Error: ''
               @ reason response @ '' for url: '' @ response_url response))
      else Inr ())"

text \<open>The \<^verbatim>\<open>except\<close> clauses of \<^verbatim>\<open>fetch_image_from_url\<close>, in the order of the source.\<close>

definition fetch_handler :: "string \<Rightarrow> exn \<Rightarrow> exn" where
  "fetch_handler url e =
     (case e of
        Timeout m \<Rightarrow>
          ImageProcessingError (''Request timeout while fetching image from URL: '' @ url)
            PROCESSING_ERROR
      | RequestException m \<Rightarrow>
          ImageProcessingError (''Failed to fetch image from URL: '' @ m) INVALID_IMAGE
      | ImageProcessingError m c \<Rightarrow> e
      | _ \<Rightarrow> ImageProcessingError (''Failed to load image from URL: '' @ str_exn e) INVALID_IMAGE)"

definition fetch_image_from_url ::
  "World \<Rightarrow> Settings \<Rightarrow> string \<Rightarrow> int \<Rightarrow> call list \<times> (exn + ndarray)" where
  "fetch_image_from_url w settings url timeout =
     (if \<not> (startswith url ''http://'' \<or> startswith url ''https://'') then
        ([], Inl (fetch_handler url (ImageProcessingError
                    ''Invalid URL format. URL must start with http:// or https://'' INVALID_IMAGE)))
      else
        (case requests_get w url timeout of
           Inl e \<Rightarrow> ([Call_requests_get url timeout], Inl (fetch_handler url e))
         | Inr response \<Rightarrow>
             (case raise_for_status response of
                Inl e \<Rightarrow> ([Call_requests_get url timeout], Inl (fetch_handler url e))
              | Inr u \<Rightarrow>
                  (case content response of
                     Inl e \<Rightarrow> ([Call_requests_get url timeout], Inl (fetch_handler url e))
                   | Inr image_bytes \<Rightarrow>
                       if int (length image_bytes) > max_image_size settings then
                         ([Call_requests_get url timeout],
                          Inl (fetch_handler url (ImageProcessingError
                                 (too_large_message (length image_bytes) (max_image_size settings))
                                 IMAGE_TOO_LARGE)))
                       else
                         (case load_image_from_bytes w settings image_bytes of
                            (calls, r) \<Rightarrow>
                              (Call_requests_get url timeout # calls,
                               (case r of
                                  Inl e \<Rightarrow> Inl (fetch_handler url e)
                                | Inr image_bgr \<Rightarrow> Inr image_bgr)))))))"

section \<open>Backend adapter (\<^verbatim>\<open>models/face_model.py\<close>)\<close>

text \<open>
  A face as the backend returns it: its \<^verbatim>\<open>embedding\<close>, which may be \<open>None\<close>, and its
  \<^verbatim>\<open>det_score\<close>, \<open>None\<close> when the face has no such attribute. The wrapper holds the
  backend, \<open>None\<close> until \<^verbatim>\<open>load\<close> has run, and the configured \<^verbatim>\<open>embedding_size\<close> (512 by
  default). The backend's \<^verbatim>\<open>get\<close> is a parameter: it returns the faces of an image or
  raises.
\<close>

record Face =
  embedding :: "pyfloat list option"
  det_score :: "real option"

record FaceRecognitionModel =
  model :: "(ndarray \<Rightarrow> exn + Face list) option"
  embedding_size :: int

definition is_loaded :: "FaceRecognitionModel \<Rightarrow> bool" where
  "is_loaded self = (model self \<noteq> None)"

text \<open>
  The \<^verbatim>\<open>except\<close> clauses of \<^verbatim>\<open>get_embedding\<close>: a \<^verbatim>\<open>FaceModelError\<close> is raised again,
  anything else becomes a processing error.
\<close>

definition embedding_handler :: "exn \<Rightarrow> exn" where
  "embedding_handler e =
     (case e of
        FaceModelError m c \<Rightarrow> e
      | _ \<Rightarrow> FaceModelError (''Failed to extract embedding: '' @ str_exn e) PROCESSING_ERROR)"

definition get_embedding ::
  "FaceRecognitionModel \<Rightarrow> ndarray \<Rightarrow> bool \<Rightarrow> exn + (pyfloat list \<times> real option)" where
  "get_embedding self img return_detection_info =
     (if \<not> is_loaded self then
        Inl (FaceModelError ''Face recognition model is not loaded'' MODEL_NOT_LOADED)
      else
        (case the (model self) img of
           Inl e \<Rightarrow> Inl (embedding_handler e)
         | Inr faces \<Rightarrow>
             if length faces = 0 then
               Inl (embedding_handler
                      (FaceModelError ''No face detected in the image'' NO_FACE_DETECTED))
             else if length faces > 1 then
               Inl (embedding_handler
                      (FaceModelError
                         (''Multiple faces detected ('' @ str_nat (length faces)
                            @ ''). Please provide an image with a single face.'')
                         MULTIPLE_FACES_DETECTED))
             else
               (let face = faces ! 0
                in case embedding face of
                     None \<Rightarrow>
                       Inl (embedding_handler
                              (FaceModelError
                                 (''Invalid embedding extracted. Expected size ''
                                    @ str_int (embedding_size self) @ '', got None'')
                                 INVALID_EMBEDDING))
                   | Some emb \<Rightarrow>
                       if int (length emb) \<noteq> embedding_size self then
                         Inl (embedding_handler
                                (FaceModelError
                                   (''Invalid embedding extracted. Expected size ''
                                      @ str_int (embedding_size self) @ '', got ''
                                      @ str_nat (length emb))
                                   INVALID_EMBEDDING))
                       else
                         Inr (emb, if return_detection_info then det_score face else None))))"

section \<open>Concrete inputs\<close>

text \<open>
  Inputs on which the theorems below run the functions: an image, faces, wrappers around
  a backend that returns a given list of faces, and worlds in which the library calls
  return given results (and \<^verbatim>\<open>Image.open\<close> rejects every byte string);
  \<open>broken_response e\<close> is a response with status 200 whose body cannot be read.
\<close>

definition blank_image :: ndarray where
  "blank_image = \<lparr>shape = [32, 32, 3], data = replicate 3072 0\<rparr>"

definition nan_face :: Face where
  "nan_face =
     \<lparr>embedding = Some (replicate 511 (Finite (1 / 10)) @ [NaN]), det_score = Some (9 / 10)\<rparr>"

definition short_face :: Face where
  "short_face = \<lparr>embedding = Some [Finite 1, Finite 0], det_score = Some (9 / 10)\<rparr>"

definition model_of :: "Face list \<Rightarrow> int \<Rightarrow> FaceRecognitionModel" where
  "model_of faces n = \<lparr>model = Some (\<lambda>img. Inr faces), embedding_size = n\<rparr>"

definition unloaded_model :: FaceRecognitionModel where
  "unloaded_model = \<lparr>model = None, embedding_size = 512\<rparr>"

definition world_of :: "(exn + uint8 list) \<Rightarrow> (exn + Response) \<Rightarrow> World" where
  "world_of decoded response =
     \<lparr>b64decode = (\<lambda>s. decoded),
      Image_open = (\<lambda>image_bytes. Inl (OtherException ''cannot identify image file'')),
      requests_get = (\<lambda>url timeout. response),
      str_allowed_formats = ''{jpg, jpeg, png, bmp, webp}''\<rparr>"

definition response_of :: "int \<Rightarrow> string \<Rightarrow> uint8 list \<Rightarrow> Response" where
  "response_of code phrase body =
     \<lparr>status_code = code, reason = phrase, response_url = ''https://example.com/a.png'',
      content = Inr body\<rparr>"


definition payload_11MiB :: "uint8 list" where
  "payload_11MiB = replicate (11 * 1024 * 1024) 0"

section \<open>Properties of the distance engine in exact arithmetic\<close>

subsection \<open>Products and squares of differences\<close>

lemma map2_mult_comm: "map2 (*) a b = map2 (*) b (a :: real list)"
proof (induction a arbitrary: b)
  case Nil
  show ?case by simp
next
  case (Cons x xs)
  show ?case by (cases b) (simp_all add: Cons.IH mult.commute)
qed

lemma sq_map2_sub_comm:
  "length a = length b \<Longrightarrow>
   map (\<lambda>x. x * x) (map2 (-) a b) = map (\<lambda>x::real. x * x) (map2 (-) b a)"
proof (induction a b rule: list_induct2)
  case Nil
  show ?case by simp
next
  case (Cons x xs y ys)
  have "(x - y) * (x - y) = (y - x) * (y - x)" by (simp add: algebra_simps)
  with Cons show ?case by simp
qed

subsection \<open>Symmetry\<close>

text \<open>
  Claim C10. For vectors \<open>a\<close>, \<open>b\<close> of equal length both distances are symmetric:
  \<open>cosine_distance a b = cosine_distance b a\<close> and
  \<open>euclidean_distance a b = euclidean_distance b a\<close>.
\<close>

theorem distances_symmetric:
  assumes "length a = length b"
  shows "cosine_distance a b = cosine_distance b a
       \<and> euclidean_distance a b = euclidean_distance b a"
proof -
  have "np_dot (normalize_embedding a) (normalize_embedding b)
          = np_dot (normalize_embedding b) (normalize_embedding a)"
    using assms
    by (simp add: np_dot_def normalize_embedding_def Let_def map2_mult_comm)
  then have c: "cosine_distance a b = cosine_distance b a"
    by (simp add: cosine_distance_def Let_def)
  have "linalg_norm (map2 (-) a b) = linalg_norm (map2 (-) b a)"
    using assms by (simp only: linalg_norm_def sq_map2_sub_comm)
  then have e: "euclidean_distance a b = euclidean_distance b a"
    using assms by (simp add: euclidean_distance_def np_sub_def)
  from c e show ?thesis by simp
qed

theorem distances_symmetric_witness:
  "length [1, 0 :: real] = length [0, 1 :: real]
   \<and> cosine_distance [1, 0] [0, 1] = Inr 1
   \<and> cosine_distance [0, 1] [1, 0] = Inr 1
   \<and> euclidean_distance [1, 0] [0, 1] = Inr (sqrt 2)
   \<and> euclidean_distance [0, 1] [1, 0] = Inr (sqrt 2)"
proof -
  have c: "cosine_distance [0, 1] [1, 0] = Inr 1"
    by (simp add: cosine_distance_def normalize_embedding_def linalg_norm_def np_dot_def
        np_clip_def)
  have e: "euclidean_distance [0, 1] [1, 0] = Inr (sqrt 2)"
    by (simp add: euclidean_distance_def np_sub_def linalg_norm_def)
  show ?thesis
    using distances_symmetric [of "[1, 0]" "[0, 1]"] c e by simp
qed

subsection \<open>Similarity\<close>

lemma distance_to_similarity_cosine:
  "distance_to_similarity d ''cosine'' = Inr (np_clip (1 - d / 2) 0 1)"
  by (simp add: distance_to_similarity_def np_clip_def Let_def min_def max_def)

lemma distance_to_similarity_euclidean:
  "d \<noteq> - 1 \<Longrightarrow> distance_to_similarity d ''euclidean'' = Inr (np_clip (1 / (1 + d)) 0 1)"
  by (auto simp add: distance_to_similarity_def np_clip_def Let_def min_def max_def)

lemma distance_to_similarity_range:
  "distance_to_similarity d metric = Inr s \<Longrightarrow> 0 \<le> s \<and> s \<le> 1"
  by (auto simp add: distance_to_similarity_def Let_def split: if_splits)

lemma distance_to_similarity_cosine_mono:
  "d1 \<le> d2 \<Longrightarrow> distance_to_similarity d1 ''cosine'' = Inr s1 \<Longrightarrow>
   distance_to_similarity d2 ''cosine'' = Inr s2 \<Longrightarrow> s2 \<le> s1"
  by (auto simp add: distance_to_similarity_def Let_def min_def max_def split: if_splits)

lemma distance_to_similarity_euclidean_mono:
  assumes "- 1 < d1" and "d1 \<le> d2"
    and "distance_to_similarity d1 ''euclidean'' = Inr t1"
    and "distance_to_similarity d2 ''euclidean'' = Inr t2"
  shows "t2 \<le> t1"
proof -
  have "1 / (1 + d2) \<le> 1 / (1 + d1)" using assms(1,2) by (simp add: frac_le)
  then have "max 0 (min 1 (1 / (1 + d2))) \<le> max 0 (min 1 (1 / (1 + d1)))" by linarith
  then show ?thesis
    using assms by (simp add: distance_to_similarity_def Let_def split: if_splits)
qed

text \<open>
  Claim C4, as the code has it. For every distance \<open>d\<close> the cosine similarity is
  \<open>clip (1 - d / 2) 0 1\<close>; for every distance \<open>d\<close> other than \<open>-1\<close> the Euclidean similarity
  is \<open>clip (1 / (1 + d)) 0 1\<close>. Every similarity the function returns lies in \<open>[0, 1]\<close>.
  The cosine similarity does not increase when the distance grows; neither does the
  Euclidean one on distances above \<open>-1\<close>, which holds all the distances there are (they
  are at least \<open>0\<close>). At distance \<open>0\<close> both similarities are \<open>1\<close>, and the cosine similarity
  of distance \<open>2\<close> is \<open>0\<close>.
\<close>

theorem distance_to_similarity_clipped:
  "distance_to_similarity d ''cosine'' = Inr (np_clip (1 - d / 2) 0 1)
   \<and> (d \<noteq> - 1 \<longrightarrow> distance_to_similarity d ''euclidean'' = Inr (np_clip (1 / (1 + d)) 0 1))
   \<and> (distance_to_similarity d metric = Inr s \<longrightarrow> 0 \<le> s \<and> s \<le> 1)
   \<and> (d1 \<le> d2 \<and> distance_to_similarity d1 ''cosine'' = Inr s1
        \<and> distance_to_similarity d2 ''cosine'' = Inr s2 \<longrightarrow> s2 \<le> s1)
   \<and> (- 1 < d1 \<and> d1 \<le> d2 \<and> distance_to_similarity d1 ''euclidean'' = Inr t1
        \<and> distance_to_similarity d2 ''euclidean'' = Inr t2 \<longrightarrow> t2 \<le> t1)
   \<and> distance_to_similarity 0 ''cosine'' = Inr 1
   \<and> distance_to_similarity 0 ''euclidean'' = Inr 1
   \<and> distance_to_similarity 2 ''cosine'' = Inr 0"
proof -
  have "distance_to_similarity 0 ''cosine'' = Inr 1"
    and "distance_to_similarity 0 ''euclidean'' = Inr 1"
    and "distance_to_similarity 2 ''cosine'' = Inr 0"
    by (simp_all add: distance_to_similarity_def Let_def)
  then show ?thesis
    using distance_to_similarity_cosine [of d] distance_to_similarity_euclidean [of d]
      distance_to_similarity_range [of d metric s]
      distance_to_similarity_cosine_mono [of d1 d2 s1 s2]
      distance_to_similarity_euclidean_mono [of d1 d2 t1 t2]
    by blast
qed

theorem distance_to_similarity_clipped_witness:
  "distance_to_similarity 3 ''cosine'' = Inr 0
   \<and> (3 :: real) \<noteq> - 1
   \<and> distance_to_similarity 3 ''euclidean'' = Inr (1 / 4)
   \<and> (0 :: real) \<le> 1 / 4 \<and> (1 / 4 :: real) \<le> 1
   \<and> (1 :: real) \<le> 3
   \<and> distance_to_similarity 1 ''cosine'' = Inr (1 / 2)
   \<and> (0 :: real) \<le> 1 / 2
   \<and> (- 1 :: real) < 1
   \<and> distance_to_similarity 1 ''euclidean'' = Inr (1 / 2)
   \<and> (1 / 4 :: real) \<le> 1 / 2"
  using distance_to_similarity_clipped
    [of 3 "''euclidean''" "1 / 4" 1 3 "1 / 2" 0 "1 / 2" "1 / 4"]
  by (simp add: distance_to_similarity_def np_clip_def Let_def)

text \<open>
  Claim C4 as the specification states it covers every real distance. At distance \<open>-1\<close>
  the Euclidean branch divides by zero and raises, and from distance \<open>-2\<close> to distance
  \<open>-1/2\<close> the Euclidean similarity grows from \<open>0\<close> to \<open>1\<close>.
\<close>

theorem distance_to_similarity_negative_counterexample:
  "distance_to_similarity (- 1) ''euclidean'' = Inl (ZeroDivisionError ''float division by zero'')
   \<and> (- 2 :: real) < - 1 / 2
   \<and> distance_to_similarity (- 2) ''euclidean'' = Inr 0
   \<and> distance_to_similarity (- 1 / 2) ''euclidean'' = Inr 1"
  by (simp add: distance_to_similarity_def Let_def)

subsection \<open>Batched distances\<close>

text \<open>
  With the Euclidean metric the batched function agrees with the per-pair function at
  every index, for rows of the query's length.
\<close>

lemma batch_euclidean_agrees:
  assumes "\<forall>row \<in> set refs. length row = length q" and "i < length refs"
  shows "\<exists>ds. batch_calculate_distances q refs ''euclidean'' = Inr ds
            \<and> calculate_distance q (refs ! i) ''euclidean'' = Inr (ds ! i)"
proof -
  from assms have len: "length (refs ! i) = length q" by simp
  have all: "list_all (\<lambda>row. length row = length q \<or> length q = 1 \<or> length row = 1) refs"
    using assms(1) by (simp add: list_all_iff)
  have rows: "map (\<lambda>row. if length row = length q then map2 (-) row q
                           else if length q = 1 then map (\<lambda>x. x - hd q) row
                           else map (\<lambda>y. hd row - y) q) refs
               = map (\<lambda>row. map2 (-) row q) refs"
    using assms(1) by simp
  have b: "batch_calculate_distances q refs ''euclidean''
             = Inr (map linalg_norm (map (\<lambda>row. map2 (-) row q) refs))"
    using all rows by (simp add: batch_calculate_distances_def np_sub_2d_def)
  have "linalg_norm (map2 (-) q (refs ! i)) = linalg_norm (map2 (-) (refs ! i) q)"
    using len by (simp only: linalg_norm_def sq_map2_sub_comm)
  then have "calculate_distance q (refs ! i) ''euclidean''
               = Inr (map linalg_norm (map (\<lambda>row. map2 (-) row q) refs) ! i)"
    using len assms(2) by (simp add: calculate_distance_def euclidean_distance_def np_sub_def)
  with b show ?thesis by blast
qed

text \<open>
  Claim C1 asks the batched function to return, at every index, what the per-pair
  function returns. With the cosine metric it does not: the batched function divides
  the whole array of references by the norm of the whole array, not every row by its own
  norm. For the query \<open>[1, 0]\<close> and the references \<open>[3, 0]\<close> and \<open>[0, 4]\<close> the norm of the
  array is \<open>5\<close>, the batched distances are \<open>2/5\<close> and \<open>1\<close>, and the per-pair distances are
  \<open>0\<close> and \<open>1\<close>.
\<close>

theorem batch_cosine_differs:
  "batch_calculate_distances [1, 0] [[3, 0], [0, 4]] ''cosine'' = Inr [2 / 5, 1]
   \<and> calculate_distance [1, 0] [3, 0] ''cosine'' = Inr 0
   \<and> calculate_distance [1, 0] [0, 4] ''cosine'' = Inr 1"
proof -
  have "sqrt 25 = sqrt (5 ^ 2)" by simp
  then have f: "linalg_norm_2d [[3, 0], [0, 4]] = 5"
    by (simp add: linalg_norm_2d_def del: real_sqrt_four)
  have "sqrt 9 = sqrt (3 ^ 2)" and "sqrt 16 = sqrt (4 ^ 2)" by simp_all
  then have n: "linalg_norm [3, 0] = 3" "linalg_norm [0, 4] = 4" "linalg_norm [1, 0] = 1"
    by (simp_all add: linalg_norm_def del: real_sqrt_four)
  have b: "batch_calculate_distances [1, 0] [[3, 0], [0, 4]] ''cosine'' = Inr [2 / 5, 1]"
    by (simp add: batch_calculate_distances_def normalize_embedding_2d_def
        normalize_embedding_def np_dot_2d_def f n Let_def)
  have p: "calculate_distance [1, 0] [3, 0] ''cosine'' = Inr 0"
      "calculate_distance [1, 0] [0, 4] ''cosine'' = Inr 1"
    by (simp_all add: calculate_distance_def cosine_distance_def normalize_embedding_def
        np_dot_def np_clip_def n Let_def)
  from b p show ?thesis by simp
qed

section \<open>Properties of the distance engine on floats\<close>

subsection \<open>Distances are NaN, infinite or at least zero\<close>


lemma float64_format_valid: "valid_format float64_format"
  by (simp add: valid_format_def float64_format_def)





lemma map2_same: "map2 f v v = map (\<lambda>x. f x x) v"
  by (induction v) simp_all



lemma length_normalize_embedding_fl [simp]:
  "length (normalize_embedding_fl fmt v) = length v"
  by (simp add: normalize_embedding_fl_def Let_def)



subsection \<open>Sums of terms that are zero or above the underflow threshold\<close>













subsection \<open>The distance of a vector to itself\<close>








subsection \<open>The range of the distance\<close>








subsection \<open>Cosine distance\<close>




subsection \<open>Symmetry on floats\<close>

text \<open>
  Both distances are symmetric on floats as well, whatever overflows or underflows:
  the products of the dot product commute, and a difference and its opposite have the
  same square.
\<close>

lemma fmul_commute: "fmul fmt a b = fmul fmt b a"
  by (cases a; cases b) (simp_all add: mult.commute)

lemma map2_fmul_commute: "map2 (fmul fmt) a b = map2 (fmul fmt) b a"
proof (induction a arbitrary: b)
  case Nil
  show ?case by simp
next
  case (Cons x xs)
  show ?case by (cases b) (simp_all add: Cons.IH fmul_commute [of fmt x])
qed

lemma cosine_distance_fl_symmetric:
  "length a = length b \<Longrightarrow> cosine_distance_fl fmt a b = cosine_distance_fl fmt b a"
  by (simp add: cosine_distance_fl_def np_dot_fl_def dot_fl_def Let_def
      map2_fmul_commute [of fmt "normalize_embedding_fl fmt a"])

lemma round_to_minus: "valid_format fmt \<Longrightarrow> round_to fmt (- x) = fneg (round_to fmt x)"
  by (simp add: round_to_def valid_format_def)

lemma fsub_swap: "valid_format fmt \<Longrightarrow> fsub fmt a b = fneg (fsub fmt b a)"
proof (cases a; cases b)
  fix x y
  assume "valid_format fmt" and "a = Finite x" and "b = Finite y"
  with round_to_minus [of fmt "y - x"] show ?thesis by (simp add: fsub_def)
qed (simp_all add: fsub_def)

lemma fmul_fneg_self: "fmul fmt (fneg t) (fneg t) = fmul fmt t t"
  by (cases t) simp_all

lemma squares_of_differences_swap:
  assumes "valid_format fmt"
  shows "length a = length b \<Longrightarrow>
         map (\<lambda>t. fmul fmt t t) (map2 (fsub fmt) a b) = map (\<lambda>t. fmul fmt t t) (map2 (fsub fmt) b a)"
proof (induction a b rule: list_induct2)
  case Nil
  show ?case by simp
next
  case (Cons x xs y ys)
  from fsub_swap [OF assms, of x y] fmul_fneg_self [of fmt "fsub fmt y x"]
  have "fmul fmt (fsub fmt x y) (fsub fmt x y) = fmul fmt (fsub fmt y x) (fsub fmt y x)"
    by simp
  with Cons.IH show ?case by simp
qed

lemma euclidean_distance_fl_symmetric:
  assumes "valid_format fmt" and "length a = length b"
  shows "euclidean_distance_fl fmt a b = euclidean_distance_fl fmt b a"
  using assms(2) squares_of_differences_swap [OF assms]
  by (simp add: euclidean_distance_fl_def np_sub_fl_def linalg_norm_fl_def dot_fl_def map2_same)

section \<open>Properties of the ranking\<close>

subsection \<open>The loop\<close>

lemma length_np_array_float32 [simp]: "length (np_array_float32 values) = length values"
  by (simp add: np_array_float32_def)




subsection \<open>The order of the sort\<close>






subsection \<open>Finite embeddings have distances that are numbers\<close>






subsection \<open>The ranked list and the best match\<close>




section \<open>Properties of the preprocessor\<close>

lemma validate_image_accepts:
  "validate_image image_opt = (True, msg) \<Longrightarrow>
   \<exists>img. image_opt = Some img \<and> msg = None
     \<and> (length (shape img) = 2 \<or> (length (shape img) = 3 \<and> shape img ! 2 \<in> {1, 3, 4}))
     \<and> 32 \<le> shape img ! 0 \<and> shape img ! 0 \<le> 8192
     \<and> 32 \<le> shape img ! 1 \<and> shape img ! 1 \<le> 8192"
  by (auto simp add: validate_image_def Let_def split: option.splits if_splits)

text \<open>
  What the preprocessor returns for an image that \<open>validate_image\<close> accepts: the height
  and the width are kept, and the result has three channels unless the image is a
  three-dimensional array with one channel, which is returned as it is.
\<close>

lemma preprocess_image_channels:
  assumes "validate_image (Some img) = (True, None)"
  shows "\<exists>out. preprocess_image (Some img) = Inr out
           \<and> shape out ! 0 = shape img ! 0 \<and> shape out ! 1 = shape img ! 1
           \<and> length (shape out) = 3
           \<and> shape out ! 2 = (if length (shape img) = 3 \<and> shape img ! 2 = 1 then 1 else 3)"
proof -
  from validate_image_accepts [OF assms]
  have s: "length (shape img) = 2 \<or> (length (shape img) = 3 \<and> shape img ! 2 \<in> {1, 3, 4})"
    by simp
  show ?thesis
  proof (cases "length (shape img) = 2")
    case True
    then show ?thesis using assms
      by (simp add: preprocess_image_def cvtColor_GRAY2BGR_def nth_append)
  next
    case False
    with s have "length (shape img) = 3" and "shape img ! 2 \<in> {1, 3, 4}" by simp_all
    then show ?thesis using assms
      by (auto simp add: preprocess_image_def cvtColor_BGRA2BGR_def)
  qed
qed

text \<open>
  Claim C9 asks three channels in the result for every validated buffer. A buffer of
  shape \<open>(32, 32, 1)\<close> passes \<open>validate_image\<close>, which accepts one channel, and
  \<open>preprocess_image\<close> returns it with its one channel: the conversion from grey looks only
  at two-dimensional arrays.
\<close>

theorem preprocess_single_channel:
  "validate_image (Some \<lparr>shape = [32, 32, 1], data = replicate 1024 0\<rparr>) = (True, None)
   \<and> preprocess_image (Some \<lparr>shape = [32, 32, 1], data = replicate 1024 0\<rparr>)
        = Inr \<lparr>shape = [32, 32, 1], data = replicate 1024 0\<rparr>"
  by (simp add: preprocess_image_def validate_image_def Let_def)

section \<open>Properties of the backend adapter\<close>

lemma get_embedding_one_face:
  assumes "model self = Some backend" and "backend img = Inr [face]"
  shows "get_embedding self img r =
           (case embedding face of
              None \<Rightarrow> Inl (FaceModelError (''Invalid embedding extracted. Expected size ''
                         @ str_int (embedding_size self) @ '', got None'') INVALID_EMBEDDING)
            | Some emb \<Rightarrow>
                if int (length emb) \<noteq> embedding_size self then
                  Inl (FaceModelError (''Invalid embedding extracted. Expected size ''
                         @ str_int (embedding_size self) @ '', got '' @ str_nat (length emb))
                         INVALID_EMBEDDING)
                else Inr (emb, if r then det_score face else None))"
  using assms
  by (simp add: get_embedding_def is_loaded_def embedding_handler_def Let_def split: option.splits)

text \<open>
  Claim C2, as the code has it. With the model loaded and exactly one face detected,
  \<open>get_embedding\<close> fails with \<open>INVALID_EMBEDDING\<close> when the face has no embedding or the
  length of its embedding differs from the configured \<open>embedding_size\<close>; an embedding of
  the configured length is returned as it is, whatever its components.
\<close>

theorem get_embedding_validates_length:
  "(model self = Some backend \<and> backend img = Inr [face] \<and> embedding face = None \<longrightarrow>
      failure_kind (get_embedding self img r) = Some INVALID_EMBEDDING)
   \<and> (model self = Some backend \<and> backend img = Inr [face] \<and> embedding face = Some emb
        \<and> int (length emb) \<noteq> embedding_size self \<longrightarrow>
      failure_kind (get_embedding self img r) = Some INVALID_EMBEDDING)
   \<and> (model self = Some backend \<and> backend img = Inr [face] \<and> embedding face = Some emb
        \<and> int (length emb) = embedding_size self \<longrightarrow>
      get_embedding self img r = Inr (emb, if r then det_score face else None))"
  using get_embedding_one_face [of self backend img face r]
  by (auto simp add: failure_kind_def)

theorem get_embedding_validates_length_witness:
  "model (model_of [short_face] 512) = Some (\<lambda>img. Inr [short_face])
   \<and> embedding short_face = Some [Finite 1, Finite 0]
   \<and> int (length [Finite 1, Finite 0]) \<noteq> embedding_size (model_of [short_face] 512)
   \<and> failure_kind (get_embedding (model_of [short_face] 512) blank_image True)
       = Some INVALID_EMBEDDING
   \<and> int (length [Finite 1, Finite 0]) = embedding_size (model_of [short_face] 2)
   \<and> get_embedding (model_of [short_face] 2) blank_image True
       = Inr ([Finite 1, Finite 0], Some (9 / 10))"
  using get_embedding_validates_length
      [of "model_of [short_face] 512" "\<lambda>img. Inr [short_face]" blank_image short_face True
        "[Finite 1, Finite 0]"]
    get_embedding_validates_length
      [of "model_of [short_face] 2" "\<lambda>img. Inr [short_face]" blank_image short_face True
        "[Finite 1, Finite 0]"]
  by (simp add: model_of_def short_face_def)

text \<open>
  Claim C2 as the specification states it also asks \<open>get_embedding\<close> to reject an
  embedding with a NaN or infinite component. With the default size 512 and a backend
  that returns one face whose embedding has 512 components, the last one NaN,
  \<open>get_embedding\<close> returns that embedding; \<open>is_valid_embedding\<close>, which \<open>get_embedding\<close>
  does not call, rejects it.
\<close>

theorem get_embedding_nan_counterexample:
  "get_embedding (model_of [nan_face] 512) blank_image True
     = Inr (replicate 511 (Finite (1 / 10)) @ [NaN], Some (9 / 10))
   \<and> list_ex isnan (replicate 511 (Finite (1 / 10)) @ [NaN])
   \<and> is_valid_embedding (replicate 511 (Finite (1 / 10)) @ [NaN]) 512 = False"
  by (simp add: get_embedding_def model_of_def nan_face_def is_loaded_def
      is_valid_embedding_def Let_def)

text \<open>
  Claim C6. A wrapper whose backend is not loaded fails with \<open>MODEL_NOT_LOADED\<close>, and no
  backend is there to be called. With a loaded backend, no face gives
  \<open>NO_FACE_DETECTED\<close>; more than one face gives \<open>MULTIPLE_FACES_DETECTED\<close> with the number of
  faces in the message; and whenever \<open>get_embedding\<close> returns, the backend is loaded and
  has reported exactly one face, whose embedding and detection score are the result.
\<close>

theorem get_embedding_single_face_policy:
  "(model self = None \<longrightarrow>
      get_embedding self img r
        = Inl (FaceModelError ''Face recognition model is not loaded'' MODEL_NOT_LOADED))
   \<and> (model self = Some backend \<and> backend img = Inr [] \<longrightarrow>
      get_embedding self img r
        = Inl (FaceModelError ''No face detected in the image'' NO_FACE_DETECTED))
   \<and> (model self = Some backend \<and> backend img = Inr faces \<and> 1 < length faces \<longrightarrow>
      get_embedding self img r
        = Inl (FaceModelError (''Multiple faces detected ('' @ str_nat (length faces)
                 @ ''). Please provide an image with a single face.'') MULTIPLE_FACES_DETECTED))
   \<and> (get_embedding self img r = Inr (emb, score) \<longrightarrow>
      (\<exists>b face. model self = Some b \<and> b img = Inr [face] \<and> embedding face = Some emb
         \<and> score = (if r then det_score face else None)))"
proof -
  have unloaded: "model self = None \<longrightarrow>
      get_embedding self img r
        = Inl (FaceModelError ''Face recognition model is not loaded'' MODEL_NOT_LOADED)"
    by (simp add: get_embedding_def is_loaded_def)
  have none: "model self = Some backend \<and> backend img = Inr [] \<longrightarrow>
      get_embedding self img r
        = Inl (FaceModelError ''No face detected in the image'' NO_FACE_DETECTED)"
    by (simp add: get_embedding_def is_loaded_def embedding_handler_def)
  have many: "model self = Some backend \<and> backend img = Inr faces \<and> 1 < length faces \<longrightarrow>
      get_embedding self img r
        = Inl (FaceModelError (''Multiple faces detected ('' @ str_nat (length faces)
                 @ ''). Please provide an image with a single face.'') MULTIPLE_FACES_DETECTED)"
    by (auto simp add: get_embedding_def is_loaded_def embedding_handler_def)
  have one: "get_embedding self img r = Inr (emb, score) \<longrightarrow>
      (\<exists>b face. model self = Some b \<and> b img = Inr [face] \<and> embedding face = Some emb
         \<and> score = (if r then det_score face else None))"
  proof
    assume ok: "get_embedding self img r = Inr (emb, score)"
    then obtain b where b: "model self = Some b"
      by (cases "model self") (simp_all add: get_embedding_def is_loaded_def)
    from ok b obtain faces where faces: "b img = Inr faces"
      by (cases "b img") (simp_all add: get_embedding_def is_loaded_def)
    from ok b faces have "faces \<noteq> [] \<and> \<not> 1 < length faces"
      by (auto simp add: get_embedding_def is_loaded_def embedding_handler_def split: if_splits)
    then obtain face where face: "faces = [face]"
      by (cases faces) auto
    from ok get_embedding_one_face [OF b, of img face r] faces face
    have "embedding face = Some emb \<and> score = (if r then det_score face else None)"
      by (auto split: option.splits if_splits)
    with b faces face show "\<exists>b face. model self = Some b \<and> b img = Inr [face]
        \<and> embedding face = Some emb \<and> score = (if r then det_score face else None)"
      by blast
  qed
  from unloaded none many one show ?thesis by blast
qed

theorem get_embedding_single_face_policy_witness:
  "model unloaded_model = None
   \<and> get_embedding unloaded_model blank_image True
       = Inl (FaceModelError ''Face recognition model is not loaded'' MODEL_NOT_LOADED)
   \<and> get_embedding (model_of [] 2) blank_image True
       = Inl (FaceModelError ''No face detected in the image'' NO_FACE_DETECTED)
   \<and> 1 < length [short_face, short_face]
   \<and> get_embedding (model_of [short_face, short_face] 2) blank_image True
       = Inl (FaceModelError
                ''Multiple faces detected (2). Please provide an image with a single face.''
                MULTIPLE_FACES_DETECTED)
   \<and> get_embedding (model_of [short_face] 2) blank_image True
       = Inr ([Finite 1, Finite 0], Some (9 / 10))
   \<and> (\<exists>b face. model (model_of [short_face] 2) = Some b \<and> b blank_image = Inr [face]
         \<and> embedding face = Some [Finite 1, Finite 0] \<and> det_score face = Some (9 / 10))"
proof -
  have two: "str_nat (Suc (Suc 0)) = ''2''" by (simp add: str_nat.simps digit_char_def)
  have one: "get_embedding (model_of [short_face] 2) blank_image True
       = Inr ([Finite 1, Finite 0], Some (9 / 10))"
    by (simp add: get_embedding_def model_of_def short_face_def is_loaded_def)
  from one get_embedding_single_face_policy
      [of "model_of [short_face] 2" blank_image True "\<lambda>img. Inr [short_face]" "[]"
        "[Finite 1, Finite 0]" "Some (9 / 10)"]
  have single: "\<exists>b face. model (model_of [short_face] 2) = Some b \<and> b blank_image = Inr [face]
         \<and> embedding face = Some [Finite 1, Finite 0] \<and> det_score face = Some (9 / 10)"
    by auto
  show ?thesis
    using get_embedding_single_face_policy
        [of unloaded_model blank_image True "\<lambda>img. Inr []" "[]" "[]" None]
      get_embedding_single_face_policy
        [of "model_of [] 2" blank_image True "\<lambda>img. Inr []" "[]" "[]" None]
      get_embedding_single_face_policy
        [of "model_of [short_face, short_face] 2" blank_image True
          "\<lambda>img. Inr [short_face, short_face]" "[short_face, short_face]" "[]" None]
      two one single
    by (simp add: model_of_def unloaded_model_def)
qed

section \<open>Properties of image ingestion\<close>

subsection \<open>The size cap\<close>

lemma decode_base64_image_too_large:
  assumes "b64decode w (strip_data_uri s) = Inr image_bytes"
    and "max_image_size settings < int (length image_bytes)"
  shows "decode_base64_image w settings s =
           ([Call_b64decode (strip_data_uri s)],
            Inl (ImageProcessingError
                   (too_large_message (length image_bytes) (max_image_size settings))
                   IMAGE_TOO_LARGE))"
  using assms by (simp add: decode_base64_image_def decode_handler_def Let_def)

lemma decode_base64_image_within_limit:
  assumes "b64decode w (strip_data_uri s) = Inr image_bytes"
    and "int (length image_bytes) \<le> max_image_size settings"
  shows "fst (decode_base64_image w settings s)
           = [Call_b64decode (strip_data_uri s), Call_Image_open image_bytes]"
  using assms
  by (simp add: decode_base64_image_def load_image_from_bytes_def Let_def)

lemma fetch_image_from_url_too_large:
  assumes "startswith url ''http://'' \<or> startswith url ''https://''"
    and "requests_get w url timeout = Inr response"
    and "raise_for_status response = Inr ()"
    and "content response = Inr image_bytes"
    and "max_image_size settings < int (length image_bytes)"
  shows "fetch_image_from_url w settings url timeout =
           ([Call_requests_get url timeout],
            Inl (ImageProcessingError
                   (too_large_message (length image_bytes) (max_image_size settings))
                   IMAGE_TOO_LARGE))"
  using assms by (auto simp add: fetch_image_from_url_def fetch_handler_def)

text \<open>
  Claim C7. When the bytes that the base64 string decodes to are more than
  \<open>max_image_size\<close>, \<open>decode_base64_image\<close> fails with \<open>IMAGE_TOO_LARGE\<close> and has made one
  library call, the base64 decoding: \<^verbatim>\<open>Image.open\<close> is not called. When the body of a
  fetched response that \<open>raise_for_status\<close> lets through is more than \<open>max_image_size\<close>,
  \<open>fetch_image_from_url\<close> fails with \<open>IMAGE_TOO_LARGE\<close> and has made one library call, the
  request. The test reads the number of decoded bytes, not the length of the string:
  when the decoded bytes are within the limit the image is opened, whatever the string.
  The default limit is 10 MiB.
\<close>

theorem size_cap_before_decode:
  "(b64decode w (strip_data_uri s) = Inr image_bytes
      \<and> max_image_size settings < int (length image_bytes) \<longrightarrow>
      decode_base64_image w settings s =
        ([Call_b64decode (strip_data_uri s)],
         Inl (ImageProcessingError
                (too_large_message (length image_bytes) (max_image_size settings))
                IMAGE_TOO_LARGE)))
   \<and> ((startswith url ''http://'' \<or> startswith url ''https://'')
      \<and> requests_get w url timeout = Inr response
      \<and> raise_for_status response = Inr ()
      \<and> content response = Inr image_bytes
      \<and> max_image_size settings < int (length image_bytes) \<longrightarrow>
      fetch_image_from_url w settings url timeout =
        ([Call_requests_get url timeout],
         Inl (ImageProcessingError
                (too_large_message (length image_bytes) (max_image_size settings))
                IMAGE_TOO_LARGE)))
   \<and> (b64decode w (strip_data_uri s) = Inr image_bytes
      \<and> int (length image_bytes) \<le> max_image_size settings \<longrightarrow>
      fst (decode_base64_image w settings s)
        = [Call_b64decode (strip_data_uri s), Call_Image_open image_bytes])
   \<and> max_image_size default_settings = 10 * 1024 * 1024"
  using decode_base64_image_too_large [of w s image_bytes settings]
    fetch_image_from_url_too_large [of url w timeout response image_bytes settings]
    decode_base64_image_within_limit [of w s image_bytes settings]
  by (simp add: default_settings_def)

theorem size_cap_before_decode_witness:
  "decode_base64_image (world_of (Inr payload_11MiB) (Inr (response_of 200 ''OK'' payload_11MiB)))
       default_settings ''data:image/png;base64,AAAA''
     = ([Call_b64decode ''AAAA''],
        Inl (ImageProcessingError (too_large_message 11534336 10485760) IMAGE_TOO_LARGE))
   \<and> fetch_image_from_url (world_of (Inr payload_11MiB) (Inr (response_of 200 ''OK'' payload_11MiB)))
       default_settings ''https://example.com/a.png'' 30
     = ([Call_requests_get ''https://example.com/a.png'' 30],
        Inl (ImageProcessingError (too_large_message 11534336 10485760) IMAGE_TOO_LARGE))
   \<and> fst (decode_base64_image (world_of (Inr [1, 2, 3]) (Inr (response_of 200 ''OK'' [1, 2, 3])))
       default_settings ''data:image/png;base64,AAAA'')
     = [Call_b64decode ''AAAA'', Call_Image_open [1, 2, 3]]"
proof -
  have strip: "strip_data_uri ''data:image/png;base64,AAAA'' = ''AAAA''"
    by (simp add: strip_data_uri_def startswith_def)
  have len: "length payload_11MiB = 11534336"
    by (simp add: payload_11MiB_def)
  show ?thesis
    using size_cap_before_decode
        [of "world_of (Inr payload_11MiB) (Inr (response_of 200 ''OK'' payload_11MiB))"
          "''data:image/png;base64,AAAA''" payload_11MiB default_settings
          "''https://example.com/a.png''" 30 "response_of 200 ''OK'' payload_11MiB"]
      size_cap_before_decode
        [of "world_of (Inr [1, 2, 3]) (Inr (response_of 200 ''OK'' [1, 2, 3]))"
          "''data:image/png;base64,AAAA''" "[1, 2, 3]" default_settings
          "''https://example.com/a.png''" 30 "response_of 200 ''OK'' [1, 2, 3]"]
    by (simp add: strip len world_of_def response_of_def default_settings_def
        raise_for_status_def startswith_def)
qed

subsection \<open>Error kinds of the URL path\<close>










end
